theory Spec2Isabelle
  imports
    Complex_Main
    "HOL-Library.Char_ord"
    "HOL-Library.List_Lexorder"
    "HOL-Library.Product_Lexorder"
    "HOL-Library.Multiset"
begin

section \<open>The input table\<close>

text \<open>
  One row of \<^verbatim>\<open>ai_solutions_sales_data.csv\<close> as \<^verbatim>\<open>pd.read_csv\<close> loads it. An empty
  cell of a text column is loaded as NaN, which is \<open>None\<close> here. Revenue is a numeric
  column: a finite value is kept exactly, as a rational, and NaN is \<open>None\<close>. The rounding
  of float64 arithmetic is not part of this model.
\<close>

record LogRecord =
  Time :: string
  URL :: "string option"
  Country :: "string option"
  Status :: int
  Product :: "string option"
  Revenue :: "rat option"

type_synonym DataFrame = "LogRecord list"

datatype py_error = ValueError | KeyError

section \<open>The pandas operations the scripts call\<close>

text \<open>Dropping the missing values of a column (\<^verbatim>\<open>dropna=True\<close>, the default everywhere).\<close>

fun dropna :: "'a option list \<Rightarrow> 'a list" where
  "dropna [] = []"
| "dropna (None # col) = dropna col"
| "dropna (Some v # col) = v # dropna col"

text \<open>The distinct values of a column in the order of their first appearance.\<close>

fun unique :: "'a list \<Rightarrow> 'a list" where
  "unique [] = []"
| "unique (x # xs) = x # filter (\<lambda>y. y \<noteq> x) (unique xs)"

text \<open>
  \<^verbatim>\<open>Series.value_counts()\<close>: missing values are dropped, every distinct value is counted,
  the distinct values come out of the hash table in the order of their first appearance,
  and the result is sorted by count, descending; values of equal count keep that order.
\<close>

definition value_counts :: "'a option list \<Rightarrow> ('a \<times> nat) list" where
  "value_counts col =
     (let xs = dropna col
      in sort_key (\<lambda>kc. - int (snd kc)) (map (\<lambda>k. (k, count_list xs k)) (unique xs)))"

text \<open>
  \<^verbatim>\<open>Series.idxmax()\<close>: the label of the first row holding the maximum; it raises
  ValueError on an empty series.
\<close>

fun argmax_from :: "'a \<Rightarrow> nat \<Rightarrow> ('a \<times> nat) list \<Rightarrow> 'a" where
  "argmax_from k c [] = k"
| "argmax_from k c ((k', c') # rest) =
     (if c < c' then argmax_from k' c' rest else argmax_from k c rest)"

definition idxmax :: "('a \<times> nat) list \<Rightarrow> py_error + 'a" where
  "idxmax s = (case s of [] \<Rightarrow> Inl ValueError | (k, c) # rest \<Rightarrow> Inr (argmax_from k c rest))"


text \<open>\<^verbatim>\<open>Series.mean()\<close> skips NaN and is NaN when nothing is left.\<close>

definition mean_skipna :: "rat option list \<Rightarrow> rat option" where
  "mean_skipna col =
     (let xs = dropna col
      in if xs = [] then None else Some (sum_list xs / of_nat (length xs)))"

text \<open>
  \<^verbatim>\<open>df.groupby(key)\<close> with its defaults \<^verbatim>\<open>sort=True, dropna=True\<close>: one group per
  distinct key that is present, the groups in ascending key order, a row with a missing
  key in no group.
\<close>

definition groupby :: "(LogRecord \<Rightarrow> 'k::linorder option) \<Rightarrow> DataFrame \<Rightarrow> ('k \<times> DataFrame) list" where
  "groupby key df =
     map (\<lambda>k. (k, filter (\<lambda>r. key r = Some k) df)) (sort (remdups (dropna (map key df))))"

text \<open>\<^verbatim>\<open>Series.isin(values)\<close>: a missing cell is in no list of strings.\<close>

definition isin :: "string option \<Rightarrow> string list \<Rightarrow> bool" where
  "isin x values = (case x of None \<Rightarrow> False | Some s \<Rightarrow> s \<in> set values)"

section \<open>The derived column RequestType\<close>

text \<open>
  The lambda of \<^verbatim>\<open>df['URL'].apply(...)\<close>, the same in the three scripts. A missing URL
  equals no string, so it falls through to the last branch.
\<close>

definition RequestType :: "string option \<Rightarrow> string" where
  "RequestType x =
     (if x = Some ''/aiassistant.php'' then ''AI Assistant''
      else if x = Some ''/scheduledemo.php'' then ''Scheduled Demo''
      else if x = Some ''/event.php'' then ''Promotional Event''
      else if isin x [''/job.php'', ''/prototype.php''] then ''Job Request''
      else ''Other'')"

section \<open>Metrics (main.py and dashboard.py)\<close>

text \<open>The mask \<^verbatim>\<open>df['Revenue'] > 0\<close>: NaN compares False.\<close>

definition positive_revenue :: "LogRecord \<Rightarrow> bool" where
  "positive_revenue r = (case Revenue r of None \<Rightarrow> False | Some v \<Rightarrow> 0 < v)"

definition total_requests :: "DataFrame \<Rightarrow> nat" where
  "total_requests df = length df"


definition avg_sale_value :: "DataFrame \<Rightarrow> rat option" where
  "avg_sale_value df = mean_skipna (map Revenue (filter positive_revenue df))"

definition top_product :: "DataFrame \<Rightarrow> py_error + string" where
  "top_product df = idxmax (value_counts (map Product (filter positive_revenue df)))"

section \<open>Aggregated tables\<close>

subsection \<open>Job pages\<close>





subsection \<open>Demo requests by country, with the recommended action (dashboard.py)\<close>

text \<open>
  The three labels of dashboard.py. Each starts with a pictograph (U+1F4A1, U+1F4E7,
  U+1F4C4), written here as its four UTF-8 bytes, and a space.
\<close>

definition Webinar :: string where
  "Webinar = [CHR 0xF0, CHR 0x9F, CHR 0x92, CHR 0xA1] @ '' Webinar''"

definition Email_Campaign :: string where
  "Email_Campaign = [CHR 0xF0, CHR 0x9F, CHR 0x93, CHR 0xA7] @ '' Email Campaign''"

definition Translate_Page :: string where
  "Translate_Page = [CHR 0xF0, CHR 0x9F, CHR 0x93, CHR 0x84] @ '' Translate Page''"

definition Action :: "int \<Rightarrow> string" where
  "Action x = (if x > 1000 then Webinar else if x > 500 then Email_Campaign else Translate_Page)"

definition demo_by_country :: "DataFrame \<Rightarrow> (string \<times> nat) list" where
  "demo_by_country df =
     value_counts (map Country (filter (\<lambda>r. RequestType (URL r) = ''Scheduled Demo'') df))"

definition demo_by_country_Action :: "DataFrame \<Rightarrow> (string \<times> nat \<times> string) list" where
  "demo_by_country_Action df = map (\<lambda>(c, n). (c, n, Action (int n))) (demo_by_country df)"

subsection \<open>Revenue by product and by country (main.py and dashboard.py)\<close>






subsection \<open>Revenue by product and by country (ai_solutions_sales.py)\<close>



subsection \<open>Status codes\<close>

definition status_counts :: "DataFrame \<Rightarrow> (int \<times> nat) list" where
  "status_counts df = value_counts (map (\<lambda>r. Some (Status r)) df)"

subsection \<open>Request types by country\<close>

text \<open>
  main.py and dashboard.py:
  \<^verbatim>\<open>df.groupby(['Country', 'RequestType']).size().reset_index(name='Count')\<close>, one row
  \<open>((Country, RequestType), Count)\<close> per group. The RequestType column is never missing.
\<close>

definition type_country :: "DataFrame \<Rightarrow> ((string \<times> string) \<times> nat) list" where
  "type_country df =
     map (\<lambda>(k, g). (k, length g))
       (groupby (\<lambda>r. map_option (\<lambda>c. (c, RequestType (URL r))) (Country r)) df)"

text \<open>
  ai_solutions_sales.py: \<^verbatim>\<open>df.groupby(['Country', 'RequestType']).size().unstack().fillna(0)\<close>,
  one row per country, one column per request type that occurs, and 0 in a cell whose
  pair has no group.
\<close>

definition type_country_batch :: "DataFrame \<Rightarrow> (string \<times> (string \<times> rat) list) list" where
  "type_country_batch df =
     (let size = type_country df;
          countries = sort (remdups (map (\<lambda>row. fst (fst row)) size));
          types = sort (remdups (map (\<lambda>row. snd (fst row)) size))
      in map (\<lambda>c. (c, map (\<lambda>t. (t, case map_of size (c, t) of None \<Rightarrow> 0 | Some n \<Rightarrow> of_nat n))
                          types)) countries)"

section \<open>The country callback of the dashboards\<close>

text \<open>
  The module-level tables a callback can reach, and the figure \<^verbatim>\<open>px.bar\<close> builds from
  the filtered frame. The callback is a step on the globals: it returns the figure and the
  globals as it leaves them.
\<close>

record Globals =
  g_df :: DataFrame
  g_type_country :: "((string \<times> string) \<times> nat) list"

definition load_globals :: "DataFrame \<Rightarrow> Globals" where
  "load_globals df = \<lparr>g_df = df, g_type_country = type_country df\<rparr>"



section \<open>Request type classification\<close>

text \<open>
  C2. Whatever the URL cell holds, RequestType is one of five distinct labels, and it is
  determined by the URL alone: /aiassistant.php gives AI Assistant, /scheduledemo.php
  Scheduled Demo, /event.php Promotional Event, /job.php and /prototype.php Job Request,
  and every other cell Other. Two rows with the same URL get the same label.
\<close>

theorem RequestType_total:
  "RequestType x \<in> {''AI Assistant'', ''Scheduled Demo'', ''Promotional Event'', ''Job Request'',
      ''Other''}
   \<and> distinct [''AI Assistant'', ''Scheduled Demo'', ''Promotional Event'', ''Job Request'',
      ''Other'']
   \<and> RequestType (Some ''/aiassistant.php'') = ''AI Assistant''
   \<and> RequestType (Some ''/scheduledemo.php'') = ''Scheduled Demo''
   \<and> RequestType (Some ''/event.php'') = ''Promotional Event''
   \<and> RequestType (Some ''/job.php'') = ''Job Request''
   \<and> RequestType (Some ''/prototype.php'') = ''Job Request''
   \<and> (x \<notin> {Some ''/aiassistant.php'', Some ''/scheduledemo.php'', Some ''/event.php'',
            Some ''/job.php'', Some ''/prototype.php''} \<longrightarrow> RequestType x = ''Other'')
   \<and> (URL r = URL r' \<longrightarrow> RequestType (URL r) = RequestType (URL r'))"
  by (cases x) (simp_all add: RequestType_def isin_def)

theorem RequestType_total_witness:
  "RequestType (Some ''/unknown.php'') = ''Other''
   \<and> RequestType None = ''Other''
   \<and> RequestType (URL \<lparr>Time = ''10:00:00'', URL = Some ''/job.php'', Country = Some ''USA'',
         Status = 200, Product = None, Revenue = Some 0\<rparr>)
     = RequestType (URL \<lparr>Time = ''23:59:59'', URL = Some ''/job.php'', Country = Some ''UK'',
         Status = 404, Product = Some ''Widget'', Revenue = Some 100\<rparr>)"
  using RequestType_total [of "Some ''/unknown.php''"] RequestType_total [of None]
    RequestType_total [of _
      "\<lparr>Time = ''10:00:00'', URL = Some ''/job.php'', Country = Some ''USA'',
         Status = 200, Product = None, Revenue = Some 0\<rparr>"
      "\<lparr>Time = ''23:59:59'', URL = Some ''/job.php'', Country = Some ''UK'',
         Status = 404, Product = Some ''Widget'', Revenue = Some 100\<rparr>"]
  by simp

section \<open>Recommended action per demo count\<close>

text \<open>
  C6. For a demo-request count \<open>n\<close> the action is the Webinar label when \<open>n > 1000\<close>, the
  Email Campaign label when \<open>500 < n \<le> 1000\<close> and the Translate Page label when
  \<open>n \<le> 500\<close>; so 500 gives Translate Page, 501 and 1000 give Email Campaign and 1001
  gives Webinar. The three labels differ, and each is its pictograph, a space and the
  words.
\<close>

theorem Action_thresholds:
  "(1000 < n \<longrightarrow> Action n = Webinar)
   \<and> (500 < n \<and> n \<le> 1000 \<longrightarrow> Action n = Email_Campaign)
   \<and> (n \<le> 500 \<longrightarrow> Action n = Translate_Page)
   \<and> Action 500 = Translate_Page \<and> Action 501 = Email_Campaign
   \<and> Action 1000 = Email_Campaign \<and> Action 1001 = Webinar
   \<and> distinct [Webinar, Email_Campaign, Translate_Page]
   \<and> drop 5 Webinar = ''Webinar'' \<and> drop 5 Email_Campaign = ''Email Campaign''
   \<and> drop 5 Translate_Page = ''Translate Page''"
  by (simp add: Action_def Webinar_def Email_Campaign_def Translate_Page_def)

theorem Action_thresholds_witness:
  "Action 1500 = Webinar \<and> Action 700 = Email_Campaign \<and> Action 20 = Translate_Page
   \<and> Action (- 3) = Translate_Page"
  using Action_thresholds [of 1500] Action_thresholds [of 700] Action_thresholds [of 20]
    Action_thresholds [of "- 3"]
  by simp

section \<open>Facts about the pandas operations\<close>

lemma set_dropna: "set (dropna col) = {v. Some v \<in> set col}"
  by (induction col rule: dropna.induct) auto



lemma set_unique: "set (unique xs) = set xs"
  by (induction xs) auto

lemma distinct_unique: "distinct (unique xs)"
  by (induction xs) (auto simp: set_unique)

lemma find_filter_neq: "\<not> P x \<Longrightarrow> find P (filter (\<lambda>y. y \<noteq> x) ys) = find P ys"
  by (induction ys) auto

lemma find_unique: "find P (unique xs) = find P xs"
  by (induction xs) (auto simp: find_filter_neq)


lemma set_value_counts:
  "set (value_counts col) = (\<lambda>k. (k, count_list (dropna col) k)) ` set (dropna col)"
  by (simp add: value_counts_def Let_def set_unique)

lemma distinct_value_counts: "distinct (map fst (value_counts col))"
proof -
  have "mset (map fst (value_counts col)) = mset (unique (dropna col))"
    by (simp add: value_counts_def Let_def multiset.map_comp comp_def)
  then show ?thesis
    using distinct_unique mset_eq_imp_distinct_iff by blast
qed





section \<open>Job-page distribution\<close>












section \<open>Total revenue\<close>




section \<open>The scalars of a table without a sale\<close>

text \<open>
  C4 as stated fails: on a table whose only record has Revenue 0 the average sale value
  is NaN, which raises nothing, and the top product is no value at all: \<^verbatim>\<open>idxmax\<close>
  raises ValueError on the empty count table.
\<close>

theorem top_product_counterexample:
  "top_product
      [\<lparr>Time = ''10:30:00'', URL = Some ''/scheduledemo.php'', Country = Some ''USA'',
         Status = 200, Product = None, Revenue = Some 0\<rparr>] = Inl ValueError
   \<and> avg_sale_value
      [\<lparr>Time = ''10:30:00'', URL = Some ''/scheduledemo.php'', Country = Some ''USA'',
         Status = 200, Product = None, Revenue = Some 0\<rparr>] = None"
  by (simp add: top_product_def avg_sale_value_def positive_revenue_def value_counts_def
      idxmax_def mean_skipna_def)

text \<open>
  C4, as amended. On every table without a positive-revenue record the average sale
  value is NaN, a value that raises nothing, and the computation of the top product
  raises ValueError.
\<close>

theorem no_sale_scalars:
  assumes "\<forall>r\<in>set df. \<not> positive_revenue r"
  shows "avg_sale_value df = None \<and> top_product df = Inl ValueError"
proof -
  from assms have "filter positive_revenue df = []"
    by (simp add: filter_empty_conv)
  then show ?thesis
    by (simp add: top_product_def avg_sale_value_def value_counts_def idxmax_def mean_skipna_def)
qed

theorem no_sale_scalars_witness:
  "avg_sale_value
      [\<lparr>Time = ''10:30:00'', URL = Some ''/scheduledemo.php'', Country = Some ''USA'',
         Status = 200, Product = None, Revenue = Some 0\<rparr>,
       \<lparr>Time = ''23:59:59'', URL = Some ''/unknown.php'', Country = Some ''UK'',
         Status = 404, Product = Some ''Widget'', Revenue = None\<rparr>] = None
   \<and> top_product
      [\<lparr>Time = ''10:30:00'', URL = Some ''/scheduledemo.php'', Country = Some ''USA'',
         Status = 200, Product = None, Revenue = Some 0\<rparr>,
       \<lparr>Time = ''23:59:59'', URL = Some ''/unknown.php'', Country = Some ''UK'',
         Status = 404, Product = Some ''Widget'', Revenue = None\<rparr>] = Inl ValueError"
proof -
  let ?df = "[\<lparr>Time = ''10:30:00'', URL = Some ''/scheduledemo.php'', Country = Some ''USA'',
         Status = 200, Product = None, Revenue = Some (0::rat)\<rparr>,
       \<lparr>Time = ''23:59:59'', URL = Some ''/unknown.php'', Country = Some ''UK'',
         Status = 404, Product = Some ''Widget'', Revenue = None\<rparr>]"
  have h: "\<forall>r\<in>set ?df. \<not> positive_revenue r"
    by (simp add: positive_revenue_def)
  from no_sale_scalars [OF h] show ?thesis .
qed

section \<open>The country callback\<close>



section \<open>Top product\<close>

lemma argmax_from_first:
  "\<forall>kc\<in>set rest. snd kc \<le> c \<Longrightarrow> argmax_from k c rest = k"
  by (induction rest) auto

lemma idxmax_sorted_desc:
  assumes "s \<noteq> []" and "sorted (map (\<lambda>kc. - int (snd kc)) s)"
  shows "idxmax s = Inr (fst (hd s))"
proof -
  from assms(1) obtain k c rest where s: "s = (k, c) # rest"
    by (cases s) auto
  with assms(2) have "\<forall>kc\<in>set rest. snd kc \<le> c"
    by auto
  then show ?thesis
    by (simp add: s idxmax_def argmax_from_first)
qed

lemma find_as_filter:
  "find P xs = (case filter P xs of [] \<Rightarrow> None | x # _ \<Rightarrow> Some x)"
  by (induction xs) auto

lemma idxmax_value_counts:
  assumes xs: "xs = dropna col" and ne: "xs \<noteq> []"
  shows "\<exists>p. idxmax (value_counts col) = Inr p \<and> p \<in> set xs
    \<and> (\<forall>q. count_list xs q \<le> count_list xs p)
    \<and> find (\<lambda>q. count_list xs q = count_list xs p) xs = Some p"
proof -
  let ?h = "\<lambda>k. (k, count_list xs k)"
  let ?f = "\<lambda>kc::'a \<times> nat. - int (snd kc)"
  let ?L = "map ?h (unique xs)"
  let ?s = "sort_key ?f ?L"
  have vc: "value_counts col = ?s"
    by (simp add: value_counts_def xs Let_def)
  from ne have "unique xs \<noteq> []"
    by (cases xs) auto
  then have "length ?s \<noteq> 0"
    by simp
  then have sne: "?s \<noteq> []"
    by (simp only: length_0_conv not_False_eq_True)
  then obtain p c rest where s: "?s = (p, c) # rest"
    by (cases ?s) auto
  have "(p, c) \<in> set ?s"
    by (simp add: s)
  then have pc: "(p, c) \<in> set ?L"
    by (simp only: set_sort)
  then have c: "c = count_list xs p" and p: "p \<in> set xs"
    by (auto simp: set_unique)
  have srt: "sorted (map ?f ?s)"
    by (rule sorted_sort_key)
  have top: "idxmax (value_counts col) = Inr p"
    using idxmax_sorted_desc [OF sne srt] by (simp add: vc s)
  have le: "count_list xs q \<le> count_list xs p" for q
  proof (cases "q \<in> set xs")
    case True
    then have "(q, count_list xs q) \<in> set ?s"
      by (simp add: set_unique image_iff)
    with srt s have "?f (p, c) \<le> ?f (q, count_list xs q)"
      by (auto simp: s)
    then show ?thesis by (simp add: c)
  next
    case False
    then show ?thesis by (simp add: count_list_0_iff)
  qed
  have "filter (\<lambda>y. ?f y = ?f (p, c)) ?s = filter (\<lambda>y. ?f y = ?f (p, c)) ?L"
    by (rule sort_key_stable)
  moreover have "filter (\<lambda>y. ?f y = ?f (p, c)) ?s = (p, c) # filter (\<lambda>y. ?f y = ?f (p, c)) rest"
    by (simp add: s)
  moreover have "filter (\<lambda>y. ?f y = ?f (p, c)) ?L
      = map ?h (filter (\<lambda>k. count_list xs k = c) (unique xs))"
    by (simp add: filter_map comp_def)
  ultimately have "map ?h (filter (\<lambda>k. count_list xs k = c) (unique xs))
      = (p, c) # filter (\<lambda>y. ?f y = ?f (p, c)) rest"
    by simp
  then obtain ks where "filter (\<lambda>k. count_list xs k = c) (unique xs) = p # ks"
    by (cases "filter (\<lambda>k. count_list xs k = c) (unique xs)") auto
  then have "find (\<lambda>k. count_list xs k = c) (unique xs) = Some p"
    by (simp add: find_as_filter)
  then have "find (\<lambda>q. count_list xs q = count_list xs p) xs = Some p"
    by (simp add: find_unique c)
  with top p le show ?thesis by blast
qed

text \<open>
  C5 as stated fails: in a table with one sale of B followed by one sale of A the two
  products tie with one sale each and A is the first of them in the sorted order of the
  names, yet the top product is B, the first row of \<^verbatim>\<open>value_counts()\<close>.
\<close>

theorem top_product_tie_counterexample:
  "top_product
      [\<lparr>Time = ''10:00:00'', URL = Some ''/aiassistant.php'', Country = Some ''USA'',
         Status = 200, Product = Some ''B'', Revenue = Some 10\<rparr>,
       \<lparr>Time = ''10:30:00'', URL = Some ''/aiassistant.php'', Country = Some ''USA'',
         Status = 200, Product = Some ''A'', Revenue = Some 20\<rparr>] = Inr ''B''
   \<and> value_counts (map Product (filter positive_revenue
      [\<lparr>Time = ''10:00:00'', URL = Some ''/aiassistant.php'', Country = Some ''USA'',
         Status = 200, Product = Some ''B'', Revenue = Some 10\<rparr>,
       \<lparr>Time = ''10:30:00'', URL = Some ''/aiassistant.php'', Country = Some ''USA'',
         Status = 200, Product = Some ''A'', Revenue = Some 20\<rparr>]))
     = [(''B'', 1), (''A'', 1)]
   \<and> ''A'' < ''B''"
  by (simp add: top_product_def positive_revenue_def value_counts_def idxmax_def)

text \<open>
  C5, as amended. Let \<open>ps\<close> be the Product column of the positive-revenue records, with
  the missing products dropped. When \<open>ps\<close> is not empty the top product is a product of
  \<open>ps\<close> whose number of occurrences no product exceeds, and among the products with that
  number it is the one that occurs first in \<open>ps\<close>, that is in the table. When \<open>ps\<close> is
  empty the computation raises ValueError.
\<close>

theorem top_product_most_sold:
  assumes "ps = dropna (map Product (filter positive_revenue df))"
  shows "(ps \<noteq> [] \<longrightarrow>
           (\<exists>p. top_product df = Inr p \<and> p \<in> set ps
              \<and> (\<forall>q. count_list ps q \<le> count_list ps p)
              \<and> find (\<lambda>q. count_list ps q = count_list ps p) ps = Some p))
         \<and> (ps = [] \<longrightarrow> top_product df = Inl ValueError)"
proof (intro conjI impI)
  assume "ps \<noteq> []"
  from idxmax_value_counts [OF assms this]
  show "\<exists>p. top_product df = Inr p \<and> p \<in> set ps
     \<and> (\<forall>q. count_list ps q \<le> count_list ps p)
     \<and> find (\<lambda>q. count_list ps q = count_list ps p) ps = Some p"
    by (simp only: top_product_def)
next
  assume "ps = []"
  with assms show "top_product df = Inl ValueError"
    by (simp add: top_product_def value_counts_def idxmax_def)
qed


theorem top_product_most_sold_witness:
  "dropna (map Product (filter positive_revenue
      [\<lparr>Time = ''09:00:00'', URL = Some ''/aiassistant.php'', Country = Some ''USA'',
         Status = 200, Product = Some ''B'', Revenue = Some 10\<rparr>,
       \<lparr>Time = ''09:10:00'', URL = Some ''/aiassistant.php'', Country = Some ''UK'',
         Status = 200, Product = Some ''A'', Revenue = Some 20\<rparr>,
       \<lparr>Time = ''09:20:00'', URL = Some ''/job.php'', Country = Some ''UK'',
         Status = 200, Product = None, Revenue = Some 0\<rparr>,
       \<lparr>Time = ''09:30:00'', URL = Some ''/aiassistant.php'', Country = Some ''UK'',
         Status = 200, Product = Some ''A'', Revenue = Some 30\<rparr>,
       \<lparr>Time = ''09:40:00'', URL = Some ''/aiassistant.php'', Country = Some ''USA'',
         Status = 200, Product = Some ''B'', Revenue = Some 5\<rparr>,
       \<lparr>Time = ''09:50:00'', URL = Some ''/event.php'', Country = Some ''USA'',
         Status = 200, Product = Some ''C'', Revenue = Some 7\<rparr>])) = [''B'', ''A'', ''A'', ''B'', ''C'']
   \<and> [''B'', ''A'', ''A'', ''B'', ''C''] \<noteq> []
   \<and> (\<exists>p. top_product
      [\<lparr>Time = ''09:00:00'', URL = Some ''/aiassistant.php'', Country = Some ''USA'',
         Status = 200, Product = Some ''B'', Revenue = Some 10\<rparr>,
       \<lparr>Time = ''09:10:00'', URL = Some ''/aiassistant.php'', Country = Some ''UK'',
         Status = 200, Product = Some ''A'', Revenue = Some 20\<rparr>,
       \<lparr>Time = ''09:20:00'', URL = Some ''/job.php'', Country = Some ''UK'',
         Status = 200, Product = None, Revenue = Some 0\<rparr>,
       \<lparr>Time = ''09:30:00'', URL = Some ''/aiassistant.php'', Country = Some ''UK'',
         Status = 200, Product = Some ''A'', Revenue = Some 30\<rparr>,
       \<lparr>Time = ''09:40:00'', URL = Some ''/aiassistant.php'', Country = Some ''USA'',
         Status = 200, Product = Some ''B'', Revenue = Some 5\<rparr>,
       \<lparr>Time = ''09:50:00'', URL = Some ''/event.php'', Country = Some ''USA'',
         Status = 200, Product = Some ''C'', Revenue = Some 7\<rparr>] = Inr p
        \<and> p \<in> set [''B'', ''A'', ''A'', ''B'', ''C'']
        \<and> (\<forall>q. count_list [''B'', ''A'', ''A'', ''B'', ''C''] q \<le> count_list [''B'', ''A'', ''A'', ''B'', ''C''] p)
        \<and> find (\<lambda>q. count_list [''B'', ''A'', ''A'', ''B'', ''C''] q = count_list [''B'', ''A'', ''A'', ''B'', ''C''] p) [''B'', ''A'', ''A'', ''B'', ''C''] = Some p)
   \<and> top_product
      [\<lparr>Time = ''09:00:00'', URL = Some ''/aiassistant.php'', Country = Some ''USA'',
         Status = 200, Product = Some ''B'', Revenue = Some 10\<rparr>,
       \<lparr>Time = ''09:10:00'', URL = Some ''/aiassistant.php'', Country = Some ''UK'',
         Status = 200, Product = Some ''A'', Revenue = Some 20\<rparr>,
       \<lparr>Time = ''09:20:00'', URL = Some ''/job.php'', Country = Some ''UK'',
         Status = 200, Product = None, Revenue = Some 0\<rparr>,
       \<lparr>Time = ''09:30:00'', URL = Some ''/aiassistant.php'', Country = Some ''UK'',
         Status = 200, Product = Some ''A'', Revenue = Some 30\<rparr>,
       \<lparr>Time = ''09:40:00'', URL = Some ''/aiassistant.php'', Country = Some ''USA'',
         Status = 200, Product = Some ''B'', Revenue = Some 5\<rparr>,
       \<lparr>Time = ''09:50:00'', URL = Some ''/event.php'', Country = Some ''USA'',
         Status = 200, Product = Some ''C'', Revenue = Some 7\<rparr>] = Inr ''B''"
proof -
  let ?df = "[\<lparr>Time = ''09:00:00'', URL = Some ''/aiassistant.php'', Country = Some ''USA'',
         Status = 200, Product = Some ''B'', Revenue = Some 10\<rparr>,
       \<lparr>Time = ''09:10:00'', URL = Some ''/aiassistant.php'', Country = Some ''UK'',
         Status = 200, Product = Some ''A'', Revenue = Some 20\<rparr>,
       \<lparr>Time = ''09:20:00'', URL = Some ''/job.php'', Country = Some ''UK'',
         Status = 200, Product = None, Revenue = Some 0\<rparr>,
       \<lparr>Time = ''09:30:00'', URL = Some ''/aiassistant.php'', Country = Some ''UK'',
         Status = 200, Product = Some ''A'', Revenue = Some 30\<rparr>,
       \<lparr>Time = ''09:40:00'', URL = Some ''/aiassistant.php'', Country = Some ''USA'',
         Status = 200, Product = Some ''B'', Revenue = Some 5\<rparr>,
       \<lparr>Time = ''09:50:00'', URL = Some ''/event.php'', Country = Some ''USA'',
         Status = 200, Product = Some ''C'', Revenue = Some 7\<rparr>]"
  have ps: "[''B'', ''A'', ''A'', ''B'', ''C''] = dropna (map Product (filter positive_revenue ?df))"
    by (simp add: positive_revenue_def)
  have ne: "[''B'', ''A'', ''A'', ''B'', ''C''] \<noteq> []"
    by simp
  from top_product_most_sold [OF ps] ne
  have ex: "\<exists>p. top_product ?df = Inr p
        \<and> p \<in> set [''B'', ''A'', ''A'', ''B'', ''C'']
        \<and> (\<forall>q. count_list [''B'', ''A'', ''A'', ''B'', ''C''] q \<le> count_list [''B'', ''A'', ''A'', ''B'', ''C''] p)
        \<and> find (\<lambda>q. count_list [''B'', ''A'', ''A'', ''B'', ''C''] q = count_list [''B'', ''A'', ''A'', ''B'', ''C''] p) [''B'', ''A'', ''A'', ''B'', ''C''] = Some p"
    by blast
  have top: "top_product ?df = Inr ''B''"
    by (simp add: top_product_def positive_revenue_def value_counts_def idxmax_def)
  show ?thesis
    by (rule conjI [OF ps [symmetric] conjI [OF ne conjI [OF ex top]]])
qed

section \<open>Facts about groupby\<close>

lemma mem_dropna_map:
  "k \<in> set (dropna (map key df)) \<longleftrightarrow> (\<exists>r\<in>set df. key r = Some k)"
  unfolding set_dropna by (simp add: image_iff) metis

lemma groupby_keys:
  "map fst (groupby key df) = sort (remdups (dropna (map key df)))"
  by (simp add: groupby_def comp_def)

lemma distinct_groupby: "distinct (map fst (groupby key df))"
  by (simp add: groupby_keys)

lemma set_groupby_keys:
  "set (map fst (groupby key df)) = {k. \<exists>r\<in>set df. key r = Some k}"
  by (auto simp: groupby_keys mem_dropna_map)

lemma groupby_row:
  assumes "(k, g) \<in> set (groupby key df)"
  shows "g = filter (\<lambda>r. key r = Some k) df \<and> g \<noteq> []"
proof -
  from assms have g: "g = filter (\<lambda>r. key r = Some k) df"
    and "k \<in> set (dropna (map key df))"
    by (auto simp: groupby_def)
  then obtain r where "r \<in> set df" "key r = Some k"
    by (auto simp: set_dropna)
  then have "filter (\<lambda>r. key r = Some k) df \<noteq> []"
    by (auto simp: filter_empty_conv)
  with g show ?thesis by simp
qed





section \<open>Grouped tables\<close>

lemma type_key_iff:
  "map_option (\<lambda>c. (c, RequestType (URL r))) (Country r) = Some k
    \<longleftrightarrow> Country r = Some (fst k) \<and> RequestType (URL r) = snd k"
  by (cases "Country r"; cases k) auto

lemma type_country_keys:
  "map fst (type_country df)
     = map fst (groupby (\<lambda>r. map_option (\<lambda>c. (c, RequestType (URL r))) (Country r)) df)"
  by (simp add: type_country_def comp_def case_prod_unfold)

lemma set_type_country_keys:
  "set (map fst (type_country df))
     = {(c, t). \<exists>r\<in>set df. Country r = Some c \<and> RequestType (URL r) = t}"
  unfolding type_country_keys set_groupby_keys by (auto simp: type_key_iff)

lemma type_country_row:
  assumes "((c, t), n) \<in> set (type_country df)"
  shows "0 < n \<and> n = length (filter (\<lambda>r. Country r = Some c \<and> RequestType (URL r) = t) df)"
proof -
  let ?key = "\<lambda>r. map_option (\<lambda>c. (c, RequestType (URL r))) (Country r)"
  from assms obtain g where g: "((c, t), g) \<in> set (groupby ?key df)" and n: "n = length g"
    by (auto simp: type_country_def)
  have "g = filter (\<lambda>r. ?key r = Some (c, t)) df"
    using groupby_row [OF g] by (rule conjunct1)
  moreover have "g \<noteq> []"
    using groupby_row [OF g] by (rule conjunct2)
  ultimately show ?thesis
    using n by (simp add: type_key_iff)
qed

lemma map_of_type_country:
  "map_of (type_country df) (c, t)
     = (if (c, t) \<in> set (map fst (type_country df))
        then Some (length (filter (\<lambda>r. Country r = Some c \<and> RequestType (URL r) = t) df))
        else None)"
proof (cases "(c, t) \<in> set (map fst (type_country df))")
  case True
  then obtain n where n: "((c, t), n) \<in> set (type_country df)"
    by auto
  have "distinct (map fst (type_country df))"
    unfolding type_country_keys by (rule distinct_groupby)
  with n have "map_of (type_country df) (c, t) = Some n"
    by simp
  with type_country_row [OF n] True show ?thesis
    by simp
next
  case False
  then have "map_of (type_country df) (c, t) = None"
    by (simp add: map_of_eq_None_iff)
  with False show ?thesis by simp
qed

lemma type_country_cell:
  "(case map_of (type_country df) (c, t) of None \<Rightarrow> 0 | Some n \<Rightarrow> of_nat n)
     = (of_nat (length (filter (\<lambda>r. Country r = Some c \<and> RequestType (URL r) = t) df)) :: rat)"
proof (cases "(c, t) \<in> set (map fst (type_country df))")
  case True
  then show ?thesis
    by (simp add: map_of_type_country)
next
  case False
  then have "\<not> (\<exists>r\<in>set df. Country r = Some c \<and> RequestType (URL r) = t)"
    unfolding set_type_country_keys by simp
  then have "filter (\<lambda>r. Country r = Some c \<and> RequestType (URL r) = t) df = []"
    by (simp add: filter_empty_conv)
  with False show ?thesis
    by (simp add: map_of_type_country)
qed

lemma type_country_batch_cells:
  "type_country_batch df =
     map (\<lambda>c. (c, map (\<lambda>t. (t, of_nat (length
              (filter (\<lambda>r. Country r = Some c \<and> RequestType (URL r) = t) df))))
            (sort (remdups (map (\<lambda>row. snd (fst row)) (type_country df))))))
       (sort (remdups (map (\<lambda>row. fst (fst row)) (type_country df))))"
  by (simp add: type_country_batch_def Let_def type_country_cell)

lemma value_counts_entry:
  assumes "(k, n) \<in> set (value_counts col)"
  shows "0 < n \<and> n = count_list (dropna col) k"
proof -
  from assms have n: "n = count_list (dropna col) k" and k: "k \<in> set (dropna col)"
    by (auto simp: set_value_counts)
  from k have "0 < count_list (dropna col) k"
    using count_list_0_iff [of "dropna col" k] by simp
  with n show ?thesis by simp
qed

lemma set_value_counts_keys:
  "set (map fst (value_counts col)) = {k. Some k \<in> set col}"
  by (auto simp: set_value_counts set_dropna image_iff)

text \<open>
  C7 as stated fails for the cross-tab of ai_solutions_sales.py: with one AI Assistant
  request from UK and one Job Request from US, the pairs (UK, Job Request) and
  (US, AI Assistant) have no record, and the table holds them with the value 0.
\<close>

theorem type_country_batch_counterexample:
  "type_country_batch
      [\<lparr>Time = ''10:00:00'', URL = Some ''/aiassistant.php'', Country = Some ''UK'',
         Status = 200, Product = None, Revenue = Some 0\<rparr>,
       \<lparr>Time = ''10:30:00'', URL = Some ''/job.php'', Country = Some ''US'',
         Status = 200, Product = None, Revenue = Some 0\<rparr>]
     = [(''UK'', [(''AI Assistant'', 1), (''Job Request'', 0)]),
        (''US'', [(''AI Assistant'', 0), (''Job Request'', 1)])]"
  by (simp add: type_country_batch_def type_country_def groupby_def RequestType_def isin_def)


text \<open>
  C7, as amended. Every table built by \<^verbatim>\<open>groupby\<close> or by \<^verbatim>\<open>value_counts\<close> holds each
  key that is present in its source exactly once, and holds no key without a record:
  every group is non-empty and every count positive. So does the Country by RequestType
  table of main.py and dashboard.py, whose count for a pair is the number of records of
  that pair. The table of ai_solutions_sales.py is the matrix of the countries present by
  the request types present: each cell holds the number of records of its pair, which is
  0 for a pair without a record.
\<close>

theorem aggregate_tables_groups:
  "distinct (map fst (type_country df))
   \<and> set (map fst (type_country df))
       = {(c, t). \<exists>r\<in>set df. Country r = Some c \<and> RequestType (URL r) = t}
   \<and> (\<forall>((c, t), n) \<in> set (type_country df).
         0 < n \<and> n = length (filter (\<lambda>r. Country r = Some c \<and> RequestType (URL r) = t) df))
   \<and> distinct (map fst (groupby key df))
   \<and> set (map fst (groupby key df)) = {k. \<exists>r\<in>set df. key r = Some k}
   \<and> (\<forall>(k, g) \<in> set (groupby key df). g \<noteq> [] \<and> g = filter (\<lambda>r. key r = Some k) df)
   \<and> distinct (map fst (value_counts col))
   \<and> set (map fst (value_counts col)) = {k. Some k \<in> set col}
   \<and> (\<forall>(k, n) \<in> set (value_counts col). 0 < n \<and> n = count_list (dropna col) k)
   \<and> type_country_batch df =
       map (\<lambda>c. (c, map (\<lambda>t. (t, of_nat (length
                (filter (\<lambda>r. Country r = Some c \<and> RequestType (URL r) = t) df))))
              (sort (remdups (map (\<lambda>row. snd (fst row)) (type_country df))))))
         (sort (remdups (map (\<lambda>row. fst (fst row)) (type_country df))))"
proof (intro conjI)
  show "distinct (map fst (type_country df))"
    unfolding type_country_keys by (rule distinct_groupby)
  show "\<forall>((c, t), n) \<in> set (type_country df).
         0 < n \<and> n = length (filter (\<lambda>r. Country r = Some c \<and> RequestType (URL r) = t) df)"
    using type_country_row [of _ _ _ df] by blast
  show "\<forall>(k, g) \<in> set (groupby key df). g \<noteq> [] \<and> g = filter (\<lambda>r. key r = Some k) df"
    using groupby_row [of _ _ key df] by blast
  show "\<forall>(k, n) \<in> set (value_counts col). 0 < n \<and> n = count_list (dropna col) k"
    using value_counts_entry [of _ _ col] by blast
qed (rule set_type_country_keys distinct_groupby set_groupby_keys distinct_value_counts
      set_value_counts_keys type_country_batch_cells)+

theorem aggregate_tables_groups_witness:
  "type_country
      [\<lparr>Time = ''10:00:00'', URL = Some ''/aiassistant.php'', Country = Some ''USA'',
         Status = 200, Product = Some ''Widget'', Revenue = Some 100\<rparr>,
       \<lparr>Time = ''10:30:00'', URL = Some ''/scheduledemo.php'', Country = Some ''USA'',
         Status = 200, Product = None, Revenue = Some 0\<rparr>,
       \<lparr>Time = ''23:59:59'', URL = Some ''/unknown.php'', Country = Some ''UK'',
         Status = 404, Product = None, Revenue = Some 0\<rparr>,
       \<lparr>Time = ''23:59:59'', URL = Some ''/aiassistant.php'', Country = Some ''USA'',
         Status = 200, Product = None, Revenue = Some 0\<rparr>]
     = [((''UK'', ''Other''), 1), ((''USA'', ''AI Assistant''), 2),
        ((''USA'', ''Scheduled Demo''), 1)]
   \<and> map fst (groupby Country
      [\<lparr>Time = ''10:00:00'', URL = Some ''/aiassistant.php'', Country = Some ''USA'',
         Status = 200, Product = Some ''Widget'', Revenue = Some 100\<rparr>,
       \<lparr>Time = ''10:30:00'', URL = Some ''/scheduledemo.php'', Country = Some ''USA'',
         Status = 200, Product = None, Revenue = Some 0\<rparr>,
       \<lparr>Time = ''23:59:59'', URL = Some ''/unknown.php'', Country = Some ''UK'',
         Status = 404, Product = None, Revenue = Some 0\<rparr>,
       \<lparr>Time = ''23:59:59'', URL = Some ''/aiassistant.php'', Country = Some ''USA'',
         Status = 200, Product = None, Revenue = Some 0\<rparr>]) = [''UK'', ''USA'']
   \<and> value_counts (map Country
      [\<lparr>Time = ''10:00:00'', URL = Some ''/aiassistant.php'', Country = Some ''USA'',
         Status = 200, Product = Some ''Widget'', Revenue = Some 100\<rparr>,
       \<lparr>Time = ''10:30:00'', URL = Some ''/scheduledemo.php'', Country = Some ''USA'',
         Status = 200, Product = None, Revenue = Some 0\<rparr>,
       \<lparr>Time = ''23:59:59'', URL = Some ''/unknown.php'', Country = Some ''UK'',
         Status = 404, Product = None, Revenue = Some 0\<rparr>,
       \<lparr>Time = ''23:59:59'', URL = Some ''/aiassistant.php'', Country = Some ''USA'',
         Status = 200, Product = None, Revenue = Some 0\<rparr>]) = [(''USA'', 3), (''UK'', 1)]
   \<and> type_country_batch
      [\<lparr>Time = ''10:00:00'', URL = Some ''/aiassistant.php'', Country = Some ''USA'',
         Status = 200, Product = Some ''Widget'', Revenue = Some 100\<rparr>,
       \<lparr>Time = ''10:30:00'', URL = Some ''/scheduledemo.php'', Country = Some ''USA'',
         Status = 200, Product = None, Revenue = Some 0\<rparr>,
       \<lparr>Time = ''23:59:59'', URL = Some ''/unknown.php'', Country = Some ''UK'',
         Status = 404, Product = None, Revenue = Some 0\<rparr>,
       \<lparr>Time = ''23:59:59'', URL = Some ''/aiassistant.php'', Country = Some ''USA'',
         Status = 200, Product = None, Revenue = Some 0\<rparr>]
     = [(''UK'', [(''AI Assistant'', 0), (''Other'', 1), (''Scheduled Demo'', 0)]),
        (''USA'', [(''AI Assistant'', 2), (''Other'', 0), (''Scheduled Demo'', 1)])]"
  using aggregate_tables_groups [of
      "[\<lparr>Time = ''10:00:00'', URL = Some ''/aiassistant.php'', Country = Some ''USA'',
         Status = 200, Product = Some ''Widget'', Revenue = Some 100\<rparr>,
       \<lparr>Time = ''10:30:00'', URL = Some ''/scheduledemo.php'', Country = Some ''USA'',
         Status = 200, Product = None, Revenue = Some 0\<rparr>,
       \<lparr>Time = ''23:59:59'', URL = Some ''/unknown.php'', Country = Some ''UK'',
         Status = 404, Product = None, Revenue = Some 0\<rparr>,
       \<lparr>Time = ''23:59:59'', URL = Some ''/aiassistant.php'', Country = Some ''USA'',
         Status = 200, Product = None, Revenue = Some 0\<rparr>]"
      Country
      "map Country
      [\<lparr>Time = ''10:00:00'', URL = Some ''/aiassistant.php'', Country = Some ''USA'',
         Status = 200, Product = Some ''Widget'', Revenue = Some 100\<rparr>,
       \<lparr>Time = ''10:30:00'', URL = Some ''/scheduledemo.php'', Country = Some ''USA'',
         Status = 200, Product = None, Revenue = Some 0\<rparr>,
       \<lparr>Time = ''23:59:59'', URL = Some ''/unknown.php'', Country = Some ''UK'',
         Status = 404, Product = None, Revenue = Some 0\<rparr>,
       \<lparr>Time = ''23:59:59'', URL = Some ''/aiassistant.php'', Country = Some ''USA'',
         Status = 200, Product = None, Revenue = Some 0\<rparr>]"]
  by (simp add: type_country_batch_def type_country_def groupby_def value_counts_def
      RequestType_def isin_def)

section \<open>Revenue by product and by country\<close>



















section \<open>The colour of the products\<close>










end
